theory Spec2Isabelle
  imports Complex_Main
begin

section \<open>Shared types (types.ts)\<close>

datatype CoverStyle = REALISTIC | ABSTRACT_3D | MINIMALIST | SURREAL | DIGITAL_ART

datatype AspectRatio = SQUARE | PORTRAIT | LANDSCAPE | WIDE

datatype GenModel = FLASH_IMAGE | PRO_IMAGE

record GenerationConfig =
  model :: GenModel
  style :: CoverStyle
  aspectRatio :: AspectRatio

text \<open>The optional fields of \<open>ArticleData\<close> (\<open>doi?\<close>, \<open>authors?\<close>, \<open>journalName?\<close>) are
  options; \<open>None\<close> is JavaScript's \<open>undefined\<close>.\<close>

record ArticleData =
  title :: string
  content :: string
  doi :: "string option"
  authors :: "string option"
  journalName :: "string option"

datatype GenerationStatus = Idle | Analyzing | Generating | Refining | Completed | Errored

section \<open>JavaScript values used by the services\<close>

text \<open>A thrown value: an \<open>Error\<close> made by the code with \<open>new Error(msg)\<close>, or the
  \<open>TypeError\<close> the runtime raises on a property read of \<open>undefined\<close>.\<close>

datatype js_error = JsError string | JsTypeError string

fun message :: "js_error \<Rightarrow> string" where
  "message (JsError m) = m"
| "message (JsTypeError m) = m"

text \<open>Truthiness of a \<open>string | undefined | null\<close> value: absent and empty are falsy.\<close>

fun truthy :: "string option \<Rightarrow> bool" where
  "truthy None = False"
| "truthy (Some s) = (s \<noteq> [])"

text \<open>\<open>v || d\<close> on a possibly absent string.\<close>

fun or_else :: "string option \<Rightarrow> string \<Rightarrow> string" where
  "or_else None d = d"
| "or_else (Some s) d = (if s = [] then d else s)"

subsection \<open>The anchored regular expressions of the services\<close>

text \<open>The source uses \<open>String.replace\<close> with three patterns, all anchored with \<open>^\<close>, without
  flags, and built from literals, \<open>?\<close> and \<open>|\<close> only. \<open>rx_match r s\<close> lists what is left of
  \<open>s\<close> after each way \<open>r\<close> matches a prefix of it, in the order a backtracking matcher tries
  them (\<open>?\<close> is greedy, \<open>|\<close> tries its left side first).\<close>

datatype rx = Lit string | Opt rx | Seq rx rx | Alt rx rx

fun rx_match :: "rx \<Rightarrow> string \<Rightarrow> string list" where
  "rx_match (Lit p) s = (if take (length p) s = p then [drop (length p) s] else [])"
| "rx_match (Opt r) s = rx_match r s @ [s]"
| "rx_match (Seq r1 r2) s = concat (map (rx_match r2) (rx_match r1 s))"
| "rx_match (Alt r1 r2) s = rx_match r1 s @ rx_match r2 s"

text \<open>\<open>s.replace(/^r/, "")\<close>: the first match is removed; without a match \<open>s\<close> is returned.\<close>

definition replace_anchored :: "rx \<Rightarrow> string \<Rightarrow> string" where
  "replace_anchored r s = (case rx_match r s of [] \<Rightarrow> s | rest # _ \<Rightarrow> rest)"

text \<open>The strings a pattern matches, for reasoning about \<open>rx_match\<close>.\<close>

fun lang :: "rx \<Rightarrow> string set" where
  "lang (Lit p) = {p}"
| "lang (Opt r) = insert [] (lang r)"
| "lang (Seq r1 r2) = (\<Union>p \<in> lang r1. (@) p ` lang r2)"
| "lang (Alt r1 r2) = lang r1 \<union> lang r2"

section \<open>services/geminiService.ts\<close>

subsection \<open>The backend and the host\<close>

text \<open>Responses of \<open>ai.models.generateContent\<close>. The code tests \<open>response.text\<close>,
  \<open>response.candidates\<close>, \<open>content.parts\<close> and \<open>part.inlineData\<close> for presence, so these are
  options. The \<open>content\<close> of a candidate can be absent as well (a blocked answer has none),
  although the code reads it without a test. An inline blob carries its bytes and a media
  type.\<close>

record text_response =
  response_text :: "string option"

record blob =
  mimeType :: string
  data :: string

record part =
  part_text :: "string option"
  inlineData :: "blob option"

record content_parts =
  parts :: "part list option"

record candidate =
  cand_content :: "content_parts option"

record image_response =
  candidates :: "candidate list option"

text \<open>The request of the two image calls: model, content parts and image configuration
  (\<open>imageSize\<close> is only sent for the pro model).\<close>

record image_request =
  req_model :: GenModel
  req_parts :: "part list"
  req_aspectRatio :: AspectRatio
  req_imageSize :: "string option"

text \<open>\<open>window.aistudio\<close> with its \<open>hasSelectedApiKey\<close>: what the awaited
  \<open>hasSelectedApiKey()\<close> yields, and the error \<open>openSelectKey()\<close> throws, if any.\<close>

record aistudio_host =
  hasSelectedApiKey :: "js_error + bool"
  openSelectKey :: "js_error option"

text \<open>Everything outside the program that one run of a handler meets: the configured key
  (\<open>process.env.API_KEY\<close>), the optional host capability, and the outcome of each backend call
  (\<open>Inl\<close>: the call throws). The text request is a fixed template of the article and the style,
  so the text backend is a function of these two.\<close>

record env =
  API_KEY :: "string option"
  aistudio :: "aistudio_host option"
  textBackend :: "ArticleData \<Rightarrow> CoverStyle \<Rightarrow> js_error + text_response"
  imageBackend :: "image_request \<Rightarrow> js_error + image_response"

subsection \<open>getAiClient\<close>

definition getAiClient :: "env \<Rightarrow> js_error + unit" where
  "getAiClient e =
     (if \<not> truthy (API_KEY e)
      then Inl (JsError ''API Key is missing. Please configure process.env.API_KEY.'')
      else Inr ())"

subsection \<open>generateVisualDescription\<close>

definition generateVisualDescription :: "env \<Rightarrow> ArticleData \<Rightarrow> CoverStyle \<Rightarrow> js_error + string" where
  "generateVisualDescription e article st =
     (case getAiClient e of
        Inl err \<Rightarrow> Inl err
      | Inr ai \<Rightarrow>
         (case textBackend e article st of
            Inl err \<Rightarrow> Inl err
          | Inr response \<Rightarrow>
              Inr (or_else (response_text response) ''A scientific abstract representation.'')))"

subsection \<open>generateCoverImage and refineCoverImage\<close>

text \<open>The check both image functions make for the pro model: when the host offers
  \<open>hasSelectedApiKey\<close> and reports no key, the key selector is opened. The result is the
  error thrown on the way, if any.\<close>

definition selectKeyIfNeeded :: "env \<Rightarrow> GenerationConfig \<Rightarrow> js_error option" where
  "selectKeyIfNeeded e config =
     (if model config = PRO_IMAGE then
        (case aistudio e of
           None \<Rightarrow> None
         | Some host \<Rightarrow>
            (case hasSelectedApiKey host of
               Inl err \<Rightarrow> Some err
             | Inr hasKey \<Rightarrow> (if \<not> hasKey then openSelectKey host else None)))
      else None)"

definition imageSizeFor :: "GenerationConfig \<Rightarrow> string option" where
  "imageSizeFor config = (if model config = PRO_IMAGE then Some ''2K'' else None)"

definition dataUrlPrefix :: string where
  "dataUrlPrefix = ''data:image/png;base64,''"

text \<open>The loop over the parts of the first candidate: the first part with \<open>inlineData\<close>
  ends it with the data URL.\<close>

fun scanParts :: "part list \<Rightarrow> string option" where
  "scanParts [] = None"
| "scanParts (p # ps) =
     (case inlineData p of
        Some b \<Rightarrow> Some (dataUrlPrefix @ data b)
      | None \<Rightarrow> scanParts ps)"

text \<open>The tail of both image functions, which differ in the message only. The condition
  is \<open>response.candidates && response.candidates[0].content.parts\<close>: with an empty
  candidate array \<open>response.candidates[0]\<close> is \<open>undefined\<close> and reading \<open>.content\<close> of it
  throws a \<open>TypeError\<close>; with a first candidate without \<open>content\<close>, reading \<open>.parts\<close>
  throws one.\<close>

definition extractImage :: "string \<Rightarrow> image_response \<Rightarrow> js_error + string" where
  "extractImage msg response =
     (case candidates response of
        None \<Rightarrow> Inl (JsError msg)
      | Some [] \<Rightarrow>
          Inl (JsTypeError ''Cannot read properties of undefined (reading 'content')'')
      | Some (c # _) \<Rightarrow>
         (case cand_content c of
            None \<Rightarrow>
              Inl (JsTypeError ''Cannot read properties of undefined (reading 'parts')'')
          | Some ct \<Rightarrow>
             (case parts ct of
                None \<Rightarrow> Inl (JsError msg)
              | Some ps \<Rightarrow>
                 (case scanParts ps of
                    Some url \<Rightarrow> Inr url
                  | None \<Rightarrow> Inl (JsError msg)))))"

text \<open>The argument of \<open>ai.models.generateContent\<close> in \<open>generateCoverImage\<close> and in
  \<open>refineCoverImage\<close>.\<close>

definition generateRequest :: "string \<Rightarrow> GenerationConfig \<Rightarrow> image_request" where
  "generateRequest visualPrompt config =
     \<lparr>req_model = model config,
      req_parts = [\<lparr>part_text = Some visualPrompt, inlineData = None\<rparr>],
      req_aspectRatio = aspectRatio config,
      req_imageSize = imageSizeFor config\<rparr>"

definition refineRequest :: "string \<Rightarrow> string \<Rightarrow> GenerationConfig \<Rightarrow> image_request" where
  "refineRequest base64Data instruction config =
     \<lparr>req_model = model config,
      req_parts =
        [\<lparr>part_text = None, inlineData = Some \<lparr>mimeType = ''image/png'', data = base64Data\<rparr>\<rparr>,
         \<lparr>part_text = Some instruction, inlineData = None\<rparr>],
      req_aspectRatio = aspectRatio config,
      req_imageSize = imageSizeFor config\<rparr>"

definition NoImageDataError :: js_error where
  "NoImageDataError = JsError ''No image data found in response.''"

definition generateCoverImage :: "env \<Rightarrow> string \<Rightarrow> GenerationConfig \<Rightarrow> js_error + string" where
  "generateCoverImage e visualPrompt config =
     (case getAiClient e of
        Inl err \<Rightarrow> Inl err
      | Inr ai \<Rightarrow>
         (case selectKeyIfNeeded e config of
            Some err \<Rightarrow> Inl err
          | None \<Rightarrow>
             (case imageBackend e (generateRequest visualPrompt config) of
                Inl err \<Rightarrow> Inl err
              | Inr response \<Rightarrow> extractImage ''No image data found in response.'' response)))"

text \<open>The inline blobs of the parts of one candidate, and those of all candidates of a
  response, in order: what "an inline image part is present" is about.\<close>

definition candidateBlobs :: "candidate \<Rightarrow> blob list" where
  "candidateBlobs c =
     (case cand_content c of
        None \<Rightarrow> []
      | Some ct \<Rightarrow> (case parts ct of None \<Rightarrow> [] | Some ps \<Rightarrow> List.map_filter inlineData ps))"

definition inlineBlobs :: "image_response \<Rightarrow> blob list" where
  "inlineBlobs response =
     (case candidates response of None \<Rightarrow> [] | Some cs \<Rightarrow> concat (map candidateBlobs cs))"

definition firstCandidateBlobs :: "image_response \<Rightarrow> blob list" where
  "firstCandidateBlobs response =
     (case candidates response of
        None \<Rightarrow> []
      | Some [] \<Rightarrow> []
      | Some (c # _) \<Rightarrow> candidateBlobs c)"

text \<open>The responses on which the condition of the image functions can be evaluated: the
  candidate list is absent, or it has a first candidate and that candidate has content.\<close>

definition firstContentReadable :: "image_response \<Rightarrow> bool" where
  "firstContentReadable response =
     (case candidates response of
        None \<Rightarrow> True
      | Some [] \<Rightarrow> False
      | Some (c # _) \<Rightarrow> cand_content c \<noteq> None)"

text \<open>\<open>/^data:image\/(png|jpeg|webp);base64,/\<close>\<close>

definition dataUrlRx :: rx where
  "dataUrlRx =
     Seq (Lit ''data:image/'')
         (Seq (Alt (Lit ''png'') (Alt (Lit ''jpeg'') (Lit ''webp''))) (Lit '';base64,''))"

definition stripDataUrl :: "string \<Rightarrow> string" where
  "stripDataUrl currentImageBase64 = replace_anchored dataUrlRx currentImageBase64"

definition refineCoverImage ::
  "env \<Rightarrow> string \<Rightarrow> string \<Rightarrow> GenerationConfig \<Rightarrow> js_error + string" where
  "refineCoverImage e currentImageBase64 instruction config =
     (case getAiClient e of
        Inl err \<Rightarrow> Inl err
      | Inr ai \<Rightarrow>
         (let base64Data = stripDataUrl currentImageBase64 in
          case selectKeyIfNeeded e config of
            Some err \<Rightarrow> Inl err
          | None \<Rightarrow>
             (case imageBackend e (refineRequest base64Data instruction config) of
                Inl err \<Rightarrow> Inl err
              | Inr response \<Rightarrow>
                  extractImage ''No image data found in refinement response.'' response)))"

subsection \<open>fetchDoiMetadata: the DOI normalisation\<close>

text \<open>\<open>/^(https?:\/\/)?(dx\.)?doi\.org\//\<close>\<close>

definition doiRx :: rx where
  "doiRx =
     Seq (Opt (Seq (Lit ''http'') (Seq (Opt (Lit ''s'')) (Lit ''://''))))
         (Seq (Opt (Lit ''dx.'')) (Lit ''doi.org/''))"

definition cleanDoi :: "string \<Rightarrow> string" where
  "cleanDoi d = replace_anchored doiRx d"

text \<open>The resolver prefixes in the words of the specification: an optional \<open>http://\<close> or
  \<open>https://\<close>, an optional \<open>dx.\<close>, then \<open>doi.org/\<close>.\<close>

definition resolver_prefixes :: "string list" where
  "resolver_prefixes =
     [''https://dx.doi.org/'', ''https://doi.org/'', ''http://dx.doi.org/'', ''http://doi.org/'',
      ''dx.doi.org/'', ''doi.org/'']"

definition starts_with :: "string \<Rightarrow> string \<Rightarrow> bool" where
  "starts_with p s = (take (length p) s = p)"

definition has_resolver_prefix :: "string \<Rightarrow> bool" where
  "has_resolver_prefix s = list_ex (\<lambda>p. starts_with p s) resolver_prefixes"

section \<open>The session controller (App)\<close>

record session =
  status :: GenerationStatus
  currentData :: "ArticleData option"
  currentConfig :: "GenerationConfig option"
  generatedImage :: "string option"
  generatedPrompt :: "string option"
  errorMessage :: "string option"

definition initialSession :: session where
  "initialSession =
     \<lparr>status = Idle, currentData = None, currentConfig = None, generatedImage = None,
      generatedPrompt = None, errorMessage = None\<rparr>"

text \<open>A handler is an \<open>async\<close> function: it runs up to an \<open>await\<close>, the state updates made so
  far are rendered, and it goes on when the awaited call settles. The model of a handler
  lists the session after each such piece, the last one being the session the handler leaves
  behind. The outcome of the awaited calls comes from the \<open>env\<close> of the run.\<close>

text \<open>\<open>error.message || d\<close>\<close>

definition message_or :: "js_error \<Rightarrow> string \<Rightarrow> string" where
  "message_or err d = (if message err = [] then d else message err)"

definition handleGenerate_steps ::
  "env \<Rightarrow> session \<Rightarrow> ArticleData \<Rightarrow> GenerationConfig \<Rightarrow> session list" where
  "handleGenerate_steps e s d config =
     (let failed = (\<lambda>s' err. s'\<lparr>status := Errored,
                     errorMessage :=
                       Some (message_or err ''An unexpected error occurred during generation.'')\<rparr>);
          s1 = s\<lparr>status := Analyzing, errorMessage := None, generatedImage := None,
                 generatedPrompt := None, currentData := Some d, currentConfig := Some config\<rparr>
      in case generateVisualDescription e d (style config) of
           Inl err \<Rightarrow> [s1, failed s1 err]
         | Inr visualPrompt \<Rightarrow>
            (let s2 = s1\<lparr>generatedPrompt := Some visualPrompt, status := Generating\<rparr>
             in case generateCoverImage e visualPrompt config of
                  Inl err \<Rightarrow> [s1, s2, failed s2 err]
                | Inr imageUrl \<Rightarrow>
                    [s1, s2, s2\<lparr>generatedImage := Some imageUrl, status := Completed\<rparr>]))"

definition handleRefine_steps :: "env \<Rightarrow> session \<Rightarrow> string \<Rightarrow> session list" where
  "handleRefine_steps e s instruction =
     (case (generatedImage s, currentConfig s) of
        (Some img, Some config) \<Rightarrow>
          (if img = [] then []
           else
             (let s1 = s\<lparr>status := Refining, errorMessage := None\<rparr>
              in case refineCoverImage e img instruction config of
                   Inl err \<Rightarrow>
                     [s1, s1\<lparr>status := Errored,
                             errorMessage :=
                               Some (''Failed to refine image. '' @ message_or err [])\<rparr>]
                 | Inr refinedImageUrl \<Rightarrow>
                     [s1, s1\<lparr>generatedImage := Some refinedImageUrl, status := Completed\<rparr>]))
      | _ \<Rightarrow> [])"

definition handleReset :: "session \<Rightarrow> session" where
  "handleReset s =
     s\<lparr>status := Idle, generatedImage := None, generatedPrompt := None,
       currentData := None, currentConfig := None\<rparr>"

text \<open>The session a handler leaves behind.\<close>

definition handleGenerate :: "env \<Rightarrow> session \<Rightarrow> ArticleData \<Rightarrow> GenerationConfig \<Rightarrow> session" where
  "handleGenerate e s d config = last (s # handleGenerate_steps e s d config)"

definition handleRefine :: "env \<Rightarrow> session \<Rightarrow> string \<Rightarrow> session" where
  "handleRefine e s instruction = last (s # handleRefine_steps e s instruction)"

text \<open>The three ways the user drives the session. While a handler is in flight the controls
  that start one are disabled or hidden, so the handlers run one after the other; each run
  has its own \<open>env\<close>.\<close>

datatype action =
    Generate env ArticleData GenerationConfig
  | Refine env string
  | Reset

fun perform_steps :: "session \<Rightarrow> action \<Rightarrow> session list" where
  "perform_steps s (Generate e d config) = handleGenerate_steps e s d config"
| "perform_steps s (Refine e instruction) = handleRefine_steps e s instruction"
| "perform_steps s Reset = [handleReset s]"

definition perform :: "session \<Rightarrow> action \<Rightarrow> session" where
  "perform s a = last (s # perform_steps s a)"

text \<open>Every session the application passes through from \<open>s\<close> under a list of actions.\<close>

fun visited :: "session \<Rightarrow> action list \<Rightarrow> session list" where
  "visited s [] = [s]"
| "visited s (a # as) = s # perform_steps s a @ visited (perform s a) as"

section \<open>components/ResultDisplay.tsx\<close>

subsection \<open>State of the component\<close>

datatype interaction_mode = Edit | Layout

datatype layout_key = Header | Meta | Tag | Content

text \<open>JavaScript numbers are modelled as reals: the model follows the arithmetic of the
  handlers exactly and leaves rounding, \<open>Infinity\<close> and \<open>NaN\<close> out. The last two only arise
  from a container of width or height zero.\<close>

record Position =
  pos_x :: real
  pos_y :: real

type_synonym LayoutState = "layout_key \<Rightarrow> Position"

record drag_start =
  mouseX :: real
  mouseY :: real
  startX :: real
  startY :: real

record mouse_event =
  clientX :: real
  clientY :: real

text \<open>What \<open>getBoundingClientRect()\<close> of the container gives.\<close>

record client_rect =
  rect_width :: real
  rect_height :: real

record CoverMetadata =
  m_journalName :: string
  m_date :: string
  m_volumeInfo :: string
  m_website :: string
  m_tag :: string
  m_title :: string
  m_authors :: string
  m_footer :: string
  m_doi :: string

text \<open>The names given to \<open>setActiveField\<close> and \<open>getResponsiveSize\<close>: the nine fields of the
  cover. No other string is ever used as a key of \<open>fontOffsets\<close>.\<close>

datatype field =
  F_journalName | F_date | F_volumeInfo | F_website | F_tag | F_title | F_authors | F_footer | F_doi

record display =
  mode :: interaction_mode
  isExporting :: bool
  layout :: LayoutState
  fontOffsets :: "field \<rightharpoonup> int"
  activeField :: "field option"
  draggingKey :: "layout_key option"
  dragStartRef :: "drag_start option"
  metadata :: CoverMetadata

definition initialLayout :: LayoutState where
  "initialLayout k =
     (case k of
        Header \<Rightarrow> \<lparr>pos_x = 5, pos_y = 5\<rparr>
      | Meta \<Rightarrow> \<lparr>pos_x = 5, pos_y = 13\<rparr>
      | Tag \<Rightarrow> \<lparr>pos_x = 70, pos_y = 5\<rparr>
      | Content \<Rightarrow> \<lparr>pos_x = 5, pos_y = 70\<rparr>)"

definition initialMetadata :: CoverMetadata where
  "initialMetadata =
     \<lparr>m_journalName = ''ADVANCED SCIENCE'',
      m_date = ''DECEMBER 2025'',
      m_volumeInfo = ''VOL. 420 '' @ [CHR 0xE2, CHR 0x80, CHR 0xA2] @ '' NO. 69'',
      m_website = ''WWW.ADVANCEDSCIENCE.COM'',
      m_tag = ''RESEARCH ARTICLE'',
      m_title = ''Bioinspired Brush Reinforced Solid Slippery Coatings for Marine Photovoltaic Protection'',
      m_authors = ''Ling Yin, Runxiang Tan, Junyi Han, Jianing Wang, Jianjun Cheng, Daheng Wu, Tao Zhang, Liping Wang'',
      m_footer = ''FEATURED IN THIS ISSUE'',
      m_doi = ''10.1002/advs.202500123''\<rparr>"

definition initialDisplay :: display where
  "initialDisplay =
     \<lparr>mode = Edit, isExporting = False, layout = initialLayout, fontOffsets = Map.empty,
      activeField = None, draggingKey = None, dragStartRef = None,
      metadata = initialMetadata\<rparr>"

definition setMode :: "interaction_mode \<Rightarrow> display \<Rightarrow> display" where
  "setMode m s = s\<lparr>mode := m\<rparr>"

subsection \<open>Metadata sync\<close>

text \<open>\<open>toUpperCase\<close> on the ASCII letters; other characters are kept.\<close>

definition upper_char :: "char \<Rightarrow> char" where
  "upper_char c =
     (case map_of (zip ''abcdefghijklmnopqrstuvwxyz'' ''ABCDEFGHIJKLMNOPQRSTUVWXYZ'') c of
        Some u \<Rightarrow> u
      | None \<Rightarrow> c)"

definition toUpperCase :: "string \<Rightarrow> string" where
  "toUpperCase s = map upper_char s"

text \<open>The effect run when \<open>articleData\<close> changes; nothing happens for \<open>null\<close>.\<close>

definition syncArticleData :: "ArticleData option \<Rightarrow> CoverMetadata \<Rightarrow> CoverMetadata" where
  "syncArticleData articleData prev =
     (case articleData of
        None \<Rightarrow> prev
      | Some a \<Rightarrow>
          prev\<lparr>m_journalName := or_else (map_option toUpperCase (journalName a)) (m_journalName prev),
               m_title := or_else (Some (title a)) (m_title prev),
               m_authors := or_else (authors a) (m_authors prev),
               m_doi := or_else (doi a) (m_doi prev)\<rparr>)"

subsection \<open>Dynamic font sizing\<close>

definition FONT_SIZES :: "string list" where
  "FONT_SIZES =
     [''text-[8px] md:text-[10px]'',
      ''text-[10px] md:text-xs'',
      ''text-xs md:text-sm'',
      ''text-sm md:text-base'',
      ''text-base md:text-lg'',
      ''text-lg md:text-xl'',
      ''text-xl md:text-2xl'',
      ''text-2xl md:text-3xl'',
      ''text-3xl md:text-4xl'',
      ''text-4xl md:text-5xl'',
      ''text-5xl md:text-6xl'',
      ''text-6xl md:text-7xl'',
      ''text-7xl md:text-8xl'',
      ''text-8xl md:text-9xl'',
      ''text-9xl md:text-[10rem]'']"

text \<open>\<open>FONT_SIZES[i]\<close>; out of range it is \<open>undefined\<close>.\<close>

definition font_at :: "int \<Rightarrow> string option" where
  "font_at i = (if 0 \<le> i \<and> i < int (length FONT_SIZES) then Some (FONT_SIZES ! nat i) else None)"

text \<open>\<open>offsets[f] || 0\<close>\<close>

definition offset_of :: "(field \<rightharpoonup> int) \<Rightarrow> field \<Rightarrow> int" where
  "offset_of offsets f = (case offsets f of None \<Rightarrow> 0 | Some v \<Rightarrow> v)"

text \<open>The local \<open>index\<close> of \<open>getResponsiveSize\<close>.\<close>

definition responsiveIndex :: "display \<Rightarrow> int \<Rightarrow> field \<Rightarrow> int" where
  "responsiveIndex s baseIndex f =
     (let offset = offset_of (fontOffsets s) f
      in max 0 (min (int (length FONT_SIZES) - 1) (baseIndex + offset)))"

definition getResponsiveSize :: "display \<Rightarrow> int \<Rightarrow> field option \<Rightarrow> string option" where
  "getResponsiveSize s baseIndex fld =
     (case fld of
        None \<Rightarrow> font_at baseIndex
      | Some f \<Rightarrow> font_at (responsiveIndex s baseIndex f))"

definition getJournalBaseIndex :: "nat \<Rightarrow> int" where
  "getJournalBaseIndex len = (if len < 10 then 12 else if len < 20 then 11 else if len < 30 then 10 else 9)"

definition getTitleBaseIndex :: "nat \<Rightarrow> int" where
  "getTitleBaseIndex len = (if len < 30 then 8 else if len < 60 then 7 else if len < 100 then 6 else 5)"

definition getAuthorsBaseIndex :: "nat \<Rightarrow> int" where
  "getAuthorsBaseIndex len = (if len < 50 then 4 else if len < 100 then 2 else 1)"

text \<open>The base index the component passes for each field.\<close>

definition baseIndexOf :: "display \<Rightarrow> field \<Rightarrow> int" where
  "baseIndexOf s f =
     (case f of
        F_journalName \<Rightarrow> getJournalBaseIndex (length (m_journalName (metadata s)))
      | F_title \<Rightarrow> getTitleBaseIndex (length (m_title (metadata s)))
      | F_authors \<Rightarrow> getAuthorsBaseIndex (length (m_authors (metadata s)))
      | F_footer \<Rightarrow> 1
      | F_doi \<Rightarrow> 1
      | _ \<Rightarrow> 2)"

definition handleFontSizeChange :: "int \<Rightarrow> display \<Rightarrow> display" where
  "handleFontSizeChange delta s =
     (case activeField s of
        None \<Rightarrow> s
      | Some f \<Rightarrow> s\<lparr>fontOffsets := (fontOffsets s)(f \<mapsto> offset_of (fontOffsets s) f + delta)\<rparr>)"

text \<open>The clamp in the words of the specification.\<close>

definition clamp :: "int \<Rightarrow> int \<Rightarrow> int \<Rightarrow> int" where
  "clamp v lo hi = (if v < lo then lo else if hi < v then hi else v)"

subsection \<open>Drag handlers\<close>

definition handleMouseDown :: "mouse_event \<Rightarrow> layout_key \<Rightarrow> display \<Rightarrow> display" where
  "handleMouseDown e key s =
     (if mode s \<noteq> Layout then s
      else s\<lparr>draggingKey := Some key,
             dragStartRef :=
               Some \<lparr>mouseX = clientX e, mouseY = clientY e,
                     startX = pos_x (layout s key), startY = pos_y (layout s key)\<rparr>\<rparr>)"

definition handleMouseMove :: "mouse_event \<Rightarrow> client_rect option \<Rightarrow> display \<Rightarrow> display" where
  "handleMouseMove e container s =
     (case (draggingKey s, dragStartRef s, container) of
        (Some key, Some start, Some containerRect) \<Rightarrow>
          (let deltaX = clientX e - mouseX start;
               deltaY = clientY e - mouseY start;
               deltaXPercent = (deltaX / rect_width containerRect) * 100;
               deltaYPercent = (deltaY / rect_height containerRect) * 100;
               newX = max (- 10) (min 100 (startX start + deltaXPercent));
               newY = max (- 10) (min 100 (startY start + deltaYPercent))
           in s\<lparr>layout := (layout s)(key := \<lparr>pos_x = newX, pos_y = newY\<rparr>)\<rparr>)
      | _ \<Rightarrow> s)"

definition handleMouseUp :: "display \<Rightarrow> display" where
  "handleMouseUp s = s\<lparr>draggingKey := None, dragStartRef := None\<rparr>"

text \<open>The listener the effect puts on \<open>window\<close> while \<open>draggingKey\<close> is set.\<close>

definition handleWindowMouseMove :: "mouse_event \<Rightarrow> client_rect option \<Rightarrow> display \<Rightarrow> display" where
  "handleWindowMouseMove e container s =
     (case (draggingKey s, dragStartRef s, container) of
        (Some key, Some start, Some containerRect) \<Rightarrow>
          (let deltaX = clientX e - mouseX start;
               deltaY = clientY e - mouseY start;
               deltaXPercent = (deltaX / rect_width containerRect) * 100;
               deltaYPercent = (deltaY / rect_height containerRect) * 100;
               newX = startX start + deltaXPercent;
               newY = startY start + deltaYPercent
           in s\<lparr>layout := (layout s)(key := \<lparr>pos_x = newX, pos_y = newY\<rparr>)\<rparr>)
      | _ \<Rightarrow> s)"

datatype drag_event =
    MouseDown mouse_event layout_key
  | MouseMove mouse_event "client_rect option"
  | WindowMouseMove mouse_event "client_rect option"
  | MouseUp

fun drag_step :: "display \<Rightarrow> drag_event \<Rightarrow> display" where
  "drag_step s (MouseDown e key) = handleMouseDown e key s"
| "drag_step s (MouseMove e container) = handleMouseMove e container s"
| "drag_step s (WindowMouseMove e container) = handleWindowMouseMove e container s"
| "drag_step s MouseUp = handleMouseUp s"

definition drag :: "display \<Rightarrow> drag_event list \<Rightarrow> display" where
  "drag s events = foldl drag_step s events"

subsection \<open>PDF export\<close>

datatype ui_effect = SavePdf string | Alert string

text \<open>\<open>name.replace(/[^a-z0-9]/gi, "_")\<close>\<close>

definition sanitize :: "string \<Rightarrow> string" where
  "sanitize name =
     map (\<lambda>c. if c \<in> set (''abcdefghijklmnopqrstuvwxyz'' @ ''ABCDEFGHIJKLMNOPQRSTUVWXYZ''
                                @ ''0123456789'') then c else CHR ''_'') name"

text \<open>\<open>container\<close> is \<open>containerRef.current\<close>; \<open>capture\<close> is the error thrown inside the
  \<open>try\<close> block (by the rasteriser, the encoder or the PDF writer), if any. The result is the
  state after the \<open>finally\<close> block and what the user gets.\<close>

definition handleDownloadPdf ::
  "client_rect option \<Rightarrow> js_error option \<Rightarrow> display \<Rightarrow> display \<times> ui_effect list" where
  "handleDownloadPdf container capture s =
     (case container of
        None \<Rightarrow> (s, [])
      | Some _ \<Rightarrow>
          (let prevMode = mode s;
               s1 = s\<lparr>isExporting := True, mode := Edit, activeField := None\<rparr>;
               effects =
                 (case capture of
                    None \<Rightarrow> [SavePdf (sanitize (m_journalName (metadata s1)) @ ''_Cover.pdf'')]
                  | Some err \<Rightarrow> [Alert ''Could not generate PDF. Please try again.''])
           in (s1\<lparr>mode := prevMode, isExporting := False\<rparr>, effects)))"

section \<open>Concrete inputs\<close>

definition exampleConfig :: GenerationConfig where
  "exampleConfig = \<lparr>model = FLASH_IMAGE, style = REALISTIC, aspectRatio = PORTRAIT\<rparr>"

definition exampleArticle :: ArticleData where
  "exampleArticle =
     \<lparr>title = ''Slippery coatings'', content = ''An abstract.'', doi = Some [],
      authors = None, journalName = Some ''Nature''\<rparr>"

definition textPart :: "string \<Rightarrow> part" where
  "textPart t = \<lparr>part_text = Some t, inlineData = None\<rparr>"

definition inlinePart :: "string \<Rightarrow> part" where
  "inlinePart payload =
     \<lparr>part_text = None, inlineData = Some \<lparr>mimeType = ''image/png'', data = payload\<rparr>\<rparr>"

definition candidateOf :: "part list \<Rightarrow> candidate" where
  "candidateOf ps = \<lparr>cand_content = Some \<lparr>parts = Some ps\<rparr>\<rparr>"

text \<open>An environment with a key, without the host capability, whose text backend answers
  with the text \<open>t\<close> and whose image backend has the outcome \<open>r\<close> for every request.\<close>

definition answeringEnv :: "string option \<Rightarrow> js_error + image_response \<Rightarrow> env" where
  "answeringEnv t r =
     \<lparr>API_KEY = Some ''key'', aistudio = None,
      textBackend = (\<lambda>article st. Inr \<lparr>response_text = t\<rparr>),
      imageBackend = (\<lambda>request. r)\<rparr>"

definition imageResponse :: image_response where
  "imageResponse = \<lparr>candidates = Some [candidateOf [textPart ''Here it is.'', inlinePart ''QUJD'']]\<rparr>"

definition textOnlyResponse :: image_response where
  "textOnlyResponse = \<lparr>candidates = Some [candidateOf [textPart ''I cannot draw this.'']]\<rparr>"

text \<open>A response whose first candidate has only text and whose second has the image.\<close>

definition secondCandidateResponse :: image_response where
  "secondCandidateResponse =
     \<lparr>candidates = Some [candidateOf [textPart ''Here it is.''], candidateOf [inlinePart ''QUJD'']]\<rparr>"

definition workingEnv :: env where
  "workingEnv = answeringEnv (Some ''a glass cell'') (Inr imageResponse)"

definition failingEnv :: env where
  "failingEnv = answeringEnv (Some ''a glass cell'') (Inl (JsError ''503 Service Unavailable''))"

text \<open>An environment whose text backend rejects the call.\<close>

definition unauthorizedEnv :: env where
  "unauthorizedEnv =
     \<lparr>API_KEY = Some ''key'', aistudio = None,
      textBackend = (\<lambda>article st. Inl (JsError ''401 Unauthorized'')),
      imageBackend = (\<lambda>request. Inr imageResponse)\<rparr>"

text \<open>A generation that succeeds, and the same followed by a refinement that fails.\<close>

definition generatedRun :: "action list" where
  "generatedRun = [Generate workingEnv exampleArticle exampleConfig]"

definition failedRefineRun :: "action list" where
  "failedRefineRun =
     [Generate workingEnv exampleArticle exampleConfig, Refine failingEnv ''more blue'']"

definition generatedSession :: session where
  "generatedSession = handleGenerate workingEnv initialSession exampleArticle exampleConfig"

text \<open>The editor with the title focused and its size raised three times.\<close>

definition enlargedTitle :: display where
  "enlargedTitle =
     initialDisplay\<lparr>fontOffsets := [F_title \<mapsto> 3], activeField := Some F_title\<rparr>"

text \<open>A drag of the header in layout mode: the button goes down at the origin of the
  viewport and the pointer is moved 2000 pixels to the right, outside a canvas of
  1000 by 1000 pixels, where only the listener on \<open>window\<close> sees it.\<close>

definition dragOutOfCanvas :: "drag_event list" where
  "dragOutOfCanvas =
     [MouseDown \<lparr>clientX = 0, clientY = 0\<rparr> Header,
      WindowMouseMove \<lparr>clientX = 2000, clientY = 0\<rparr>
        (Some \<lparr>rect_width = 1000, rect_height = 1000\<rparr>),
      MouseUp]"

section \<open>Properties\<close>

lemmas example_defs =
  answeringEnv_def exampleArticle_def exampleConfig_def candidateOf_def inlinePart_def
  textPart_def imageResponse_def textOnlyResponse_def secondCandidateResponse_def
  workingEnv_def failingEnv_def

lemmas service_defs =
  generateVisualDescription_def generateCoverImage_def refineCoverImage_def getAiClient_def
  selectKeyIfNeeded_def extractImage_def generateRequest_def refineRequest_def
  dataUrlPrefix_def

lemmas handler_defs =
  perform_def handleGenerate_def handleRefine_def handleGenerate_steps_def
  handleRefine_steps_def handleReset_def initialSession_def message_or_def

subsection \<open>The session controller\<close>

lemma handleGenerate_steps_image:
  "s' \<in> set (handleGenerate_steps e s d config) \<Longrightarrow> generatedImage s' \<noteq> None \<Longrightarrow>
   status s' \<in> {Completed, Errored}"
  by (auto simp: handleGenerate_steps_def Let_def split: sum.splits)

lemma handleRefine_steps_status:
  "s' \<in> set (handleRefine_steps e s i) \<Longrightarrow> status s' \<in> {Completed, Refining, Errored}"
  by (auto simp: handleRefine_steps_def Let_def split: sum.splits option.splits if_splits)

lemma perform_steps_image:
  assumes "s' \<in> set (perform_steps s a)" and "generatedImage s' \<noteq> None"
  shows "status s' \<in> {Completed, Refining, Errored}"
proof (cases a)
  case (Generate e d c)
  with assms show ?thesis using handleGenerate_steps_image[of s' e s d c] by auto
next
  case (Refine e i)
  with assms show ?thesis using handleRefine_steps_status[of s' e s i] by auto
next
  case Reset
  with assms show ?thesis by (simp add: handleReset_def)
qed

lemma perform_cases: "perform s a = s \<or> perform s a \<in> set (perform_steps s a)"
  unfolding perform_def by (cases "perform_steps s a" rule: rev_cases) auto

lemma visited_image:
  assumes "generatedImage s0 \<noteq> None \<longrightarrow> status s0 \<in> {Completed, Refining, Errored}"
    and "s \<in> set (visited s0 acts)" and "generatedImage s \<noteq> None"
  shows "status s \<in> {Completed, Refining, Errored}"
  using assms
proof (induction acts arbitrary: s0)
  case Nil
  then show ?case by simp
next
  case (Cons a acts)
  from Cons.prems(2) consider "s = s0" | "s \<in> set (perform_steps s0 a)"
    | "s \<in> set (visited (perform s0 a) acts)"
    by auto
  then show ?case
  proof cases
    case 1
    with Cons.prems show ?thesis by simp
  next
    case 2
    from 2 Cons.prems(3) show ?thesis by (rule perform_steps_image)
  next
    case 3
    have "generatedImage (perform s0 a) \<noteq> None \<longrightarrow>
          status (perform s0 a) \<in> {Completed, Refining, Errored}"
      using perform_cases[of s0 a] Cons.prems(1) perform_steps_image[of "perform s0 a" s0 a]
      by auto
    from Cons.IH[OF this 3 Cons.prems(3)] show ?thesis .
  qed
qed

text \<open>C1, as amended. In every session the application passes through from the initial
  one under any sequence of \<open>handleGenerate\<close>, \<open>handleRefine\<close> and \<open>handleReset\<close>,
  \<open>generatedImage\<close> is non-null only when the status is \<open>completed\<close>, \<open>refining\<close> or \<open>error\<close>:
  it is null in \<open>idle\<close>, \<open>analyzing\<close> and \<open>generating\<close>. (In \<open>error\<close> it is non-null after a
  failed refinement, which keeps the image.)\<close>

theorem generatedImage_only_after_generation:
  assumes "s \<in> set (visited initialSession acts)" and "generatedImage s \<noteq> None"
  shows "status s \<in> {Completed, Refining, Errored}"
proof -
  have "generatedImage initialSession \<noteq> None \<longrightarrow>
        status initialSession \<in> {Completed, Refining, Errored}"
    by (simp add: initialSession_def)
  from visited_image[OF this assms] show ?thesis .
qed

theorem generatedImage_only_after_generation_witness:
  "last (visited initialSession generatedRun) \<in> set (visited initialSession generatedRun)
   \<and> generatedImage (last (visited initialSession generatedRun)) \<noteq> None
   \<and> status (last (visited initialSession generatedRun)) \<in> {Completed, Refining, Errored}"
proof -
  have h1: "last (visited initialSession generatedRun) \<in> set (visited initialSession generatedRun)"
    by (simp add: generatedRun_def)
  have h2: "generatedImage (last (visited initialSession generatedRun)) \<noteq> None"
    by (simp add: generatedRun_def example_defs service_defs handler_defs Let_def)
  have c: "status (last (visited initialSession generatedRun)) \<in> {Completed, Refining, Errored}"
    by (rule generatedImage_only_after_generation [OF h1 h2])
  from h1 h2 c show ?thesis by (intro conjI)
qed

text \<open>C1 as stated fails: after a generation that succeeds and a refinement that fails the
  status is \<open>error\<close> and \<open>generatedImage\<close> still holds the generated image.\<close>

theorem generatedImage_in_error_counterexample:
  "last (visited initialSession failedRefineRun) \<in> set (visited initialSession failedRefineRun)
   \<and> status (last (visited initialSession failedRefineRun)) = Errored
   \<and> generatedImage (last (visited initialSession failedRefineRun))
       = Some ''data:image/png;base64,QUJD''"
  by (simp add: failedRefineRun_def example_defs service_defs handler_defs Let_def)

text \<open>C2. When the session is \<open>completed\<close> with an image and a refinement is attempted
  (the image is non-empty and a configuration is present, so \<open>refineCoverImage\<close> is called)
  and fails, \<open>handleRefine\<close> leaves the session in \<open>error\<close> with the very image it had
  before.\<close>

theorem failed_refinement_keeps_image:
  assumes "status s = Completed"
    and "generatedImage s = Some img" and "img \<noteq> []"
    and "currentConfig s = Some config"
    and "refineCoverImage e img instruction config = Inl err"
  shows "status (handleRefine e s instruction) = Errored \<and>
         generatedImage (handleRefine e s instruction) = Some img"
  using assms by (simp add: handleRefine_def handleRefine_steps_def)

theorem failed_refinement_keeps_image_witness:
  "status generatedSession = Completed
   \<and> generatedImage generatedSession = Some ''data:image/png;base64,QUJD''
   \<and> currentConfig generatedSession = Some exampleConfig
   \<and> refineCoverImage failingEnv ''data:image/png;base64,QUJD'' ''more blue'' exampleConfig
       = Inl (JsError ''503 Service Unavailable'')
   \<and> status (handleRefine failingEnv generatedSession ''more blue'') = Errored
   \<and> generatedImage (handleRefine failingEnv generatedSession ''more blue'')
       = Some ''data:image/png;base64,QUJD''"
proof -
  have h1: "status generatedSession = Completed"
    by (simp add: generatedSession_def example_defs service_defs handler_defs Let_def)
  have h2: "generatedImage generatedSession = Some ''data:image/png;base64,QUJD''"
    by (simp add: generatedSession_def example_defs service_defs handler_defs Let_def)
  have h3: "''data:image/png;base64,QUJD'' \<noteq> []"
    by simp
  have h4: "currentConfig generatedSession = Some exampleConfig"
    by (simp add: generatedSession_def example_defs service_defs handler_defs Let_def)
  have h5: "refineCoverImage failingEnv ''data:image/png;base64,QUJD'' ''more blue'' exampleConfig
              = Inl (JsError ''503 Service Unavailable'')"
    by (simp add: example_defs service_defs Let_def)
  have c: "status (handleRefine failingEnv generatedSession ''more blue'') = Errored \<and>
           generatedImage (handleRefine failingEnv generatedSession ''more blue'')
             = Some ''data:image/png;base64,QUJD''"
    by (rule failed_refinement_keeps_image [OF h1 h2 h3 h4 h5])
  from h1 h2 h4 h5 c show ?thesis by (intro conjI) simp_all
qed

subsection \<open>The generation services\<close>

lemma scanParts_None: "scanParts ps = None \<longleftrightarrow> List.map_filter inlineData ps = []"
  by (induction ps) (auto simp: List.map_filter_simps split: option.splits)

lemma scanParts_Some:
  "scanParts ps = Some url \<Longrightarrow>
   \<exists>b bs. List.map_filter inlineData ps = b # bs \<and> url = dataUrlPrefix @ data b"
  by (induction ps) (auto simp: List.map_filter_simps split: option.splits)

lemma extractImage_NoImageData:
  "firstContentReadable response \<Longrightarrow>
   (extractImage ''No image data found in response.'' response = Inl NoImageDataError)
     = (firstCandidateBlobs response = [])"
  by (auto simp: extractImage_def NoImageDataError_def firstCandidateBlobs_def
        firstContentReadable_def candidateBlobs_def scanParts_None[symmetric]
      split: option.splits list.splits)

lemma extractImage_unreadable:
  "\<not> firstContentReadable response \<Longrightarrow> \<exists>m. extractImage msg response = Inl (JsTypeError m)"
  by (auto simp: extractImage_def firstContentReadable_def split: option.splits list.splits)

lemma extractImage_Inr:
  "extractImage msg response = Inr url \<Longrightarrow>
   \<exists>b bs. firstCandidateBlobs response = b # bs \<and> url = dataUrlPrefix @ data b"
  by (auto simp: extractImage_def firstCandidateBlobs_def candidateBlobs_def
      split: option.splits list.splits dest: scanParts_Some)

lemma handleGenerate_image_failure:
  "generateVisualDescription e d (style config) = Inr p \<Longrightarrow>
   generateCoverImage e p config = Inl err \<Longrightarrow>
   status (handleGenerate e s d config) = Errored \<and>
   generatedImage (handleGenerate e s d config) = None"
  by (simp add: handleGenerate_def handleGenerate_steps_def Let_def)

text \<open>C3, as amended. \<open>generateCoverImage\<close> looks at the first candidate only. When the
  backend returns a response whose candidate list is absent, or whose first candidate exists
  and has content, \<open>generateCoverImage\<close> fails with \<open>NoImageDataError\<close> if and only if the
  first candidate has no inline image part (the list is absent, its parts are absent, or none
  of them carries \<open>inlineData\<close>); on such a failure of a first generation the session status
  becomes \<open>error\<close> and \<open>generatedImage\<close> remains null.\<close>

theorem generateCoverImage_no_image_data:
  assumes "getAiClient e = Inr ()"
    and "selectKeyIfNeeded e config = None"
    and "imageBackend e (generateRequest p config) = Inr response"
    and "firstContentReadable response"
  shows "(generateCoverImage e p config = Inl NoImageDataError
            \<longleftrightarrow> firstCandidateBlobs response = [])
       \<and> (generateVisualDescription e d (style config) = Inr p
            \<and> firstCandidateBlobs response = []
          \<longrightarrow> status (handleGenerate e s d config) = Errored
            \<and> generatedImage (handleGenerate e s d config) = None)"
proof -
  have eq: "generateCoverImage e p config
              = extractImage ''No image data found in response.'' response"
    using assms(1-3) by (simp add: generateCoverImage_def)
  have iff: "generateCoverImage e p config = Inl NoImageDataError
               \<longleftrightarrow> firstCandidateBlobs response = []"
    unfolding eq using assms(4) by (rule extractImage_NoImageData)
  show ?thesis
    using iff handleGenerate_image_failure[of e d config p NoImageDataError s] by blast
qed

theorem generateCoverImage_no_image_data_witness:
  "generateCoverImage (answeringEnv (Some ''a glass cell'') (Inr textOnlyResponse))
      ''a glass cell'' exampleConfig = Inl NoImageDataError
   \<and> status (handleGenerate (answeringEnv (Some ''a glass cell'') (Inr textOnlyResponse))
               initialSession exampleArticle exampleConfig) = Errored
   \<and> generatedImage (handleGenerate (answeringEnv (Some ''a glass cell'') (Inr textOnlyResponse))
               initialSession exampleArticle exampleConfig) = None"
proof -
  let ?e = "answeringEnv (Some ''a glass cell'') (Inr textOnlyResponse)"
  have h1: "getAiClient ?e = Inr ()"
    by (simp add: answeringEnv_def getAiClient_def)
  have h2: "selectKeyIfNeeded ?e exampleConfig = None"
    by (simp add: answeringEnv_def selectKeyIfNeeded_def exampleConfig_def)
  have h3: "imageBackend ?e (generateRequest ''a glass cell'' exampleConfig) = Inr textOnlyResponse"
    by (simp add: answeringEnv_def)
  have h4: "firstContentReadable textOnlyResponse"
    by (simp add: firstContentReadable_def textOnlyResponse_def candidateOf_def)
  have no_blob: "firstCandidateBlobs textOnlyResponse = []"
    by (simp add: firstCandidateBlobs_def candidateBlobs_def textOnlyResponse_def candidateOf_def
          textPart_def List.map_filter_simps)
  have described: "generateVisualDescription ?e exampleArticle (style exampleConfig)
                     = Inr ''a glass cell''"
    by (simp add: answeringEnv_def generateVisualDescription_def getAiClient_def)
  from generateCoverImage_no_image_data [OF h1 h2 h3 h4, of exampleArticle initialSession]
    no_blob described
  show ?thesis by blast
qed

text \<open>C3 as stated fails: with the only inline image part in the second candidate,
  \<open>generateCoverImage\<close> fails with \<open>NoImageDataError\<close> although an inline image part is
  present in a candidate of the response.\<close>

theorem generateCoverImage_second_candidate_counterexample:
  "generateCoverImage (answeringEnv (Some ''a glass cell'') (Inr secondCandidateResponse))
      ''a glass cell'' exampleConfig = Inl NoImageDataError
   \<and> inlineBlobs secondCandidateResponse \<noteq> []"
  by (simp add: example_defs service_defs NoImageDataError_def inlineBlobs_def
        candidateBlobs_def List.map_filter_simps)

text \<open>C9. \<open>generateVisualDescription\<close> does not fail on empty output: when the client can
  be made and the backend call returns a response whose text is empty or absent, the result
  is the fixed fallback string. When it fails, the error is the one thrown by
  \<open>getAiClient\<close> (no credential configured) or the one thrown by the backend call.\<close>

theorem generateVisualDescription_falls_back:
  "(getAiClient e = Inr () \<and> textBackend e article st = Inr response
      \<and> \<not> truthy (response_text response)
      \<longrightarrow> generateVisualDescription e article st
            = Inr ''A scientific abstract representation.'')
   \<and> (generateVisualDescription e article st = Inl err
      \<longrightarrow> getAiClient e = Inl err \<or> textBackend e article st = Inl err)"
  by (cases "response_text response")
     (auto simp: generateVisualDescription_def split: sum.splits)

theorem generateVisualDescription_falls_back_witness:
  "generateVisualDescription (answeringEnv (Some []) (Inr imageResponse)) exampleArticle REALISTIC
     = Inr ''A scientific abstract representation.''
   \<and> generateVisualDescription unauthorizedEnv exampleArticle REALISTIC
       = Inl (JsError ''401 Unauthorized'')
   \<and> (getAiClient unauthorizedEnv = Inl (JsError ''401 Unauthorized'')
      \<or> textBackend unauthorizedEnv exampleArticle REALISTIC = Inl (JsError ''401 Unauthorized''))"
proof -
  let ?e = "answeringEnv (Some []) (Inr imageResponse)"
  have h: "getAiClient ?e = Inr ()
           \<and> textBackend ?e exampleArticle REALISTIC = Inr \<lparr>response_text = Some []\<rparr>
           \<and> \<not> truthy (response_text \<lparr>response_text = Some []\<rparr>)"
    by (simp add: answeringEnv_def getAiClient_def)
  from generateVisualDescription_falls_back
         [of ?e exampleArticle REALISTIC "\<lparr>response_text = Some []\<rparr>"] h
  have c1: "generateVisualDescription ?e exampleArticle REALISTIC
              = Inr ''A scientific abstract representation.''"
    by blast
  have h2: "generateVisualDescription unauthorizedEnv exampleArticle REALISTIC
              = Inl (JsError ''401 Unauthorized'')"
    by (simp add: unauthorizedEnv_def generateVisualDescription_def getAiClient_def)
  from generateVisualDescription_falls_back
         [of unauthorizedEnv exampleArticle REALISTIC _ "JsError ''401 Unauthorized''"] h2
  have c2: "getAiClient unauthorizedEnv = Inl (JsError ''401 Unauthorized'')
            \<or> textBackend unauthorizedEnv exampleArticle REALISTIC
                = Inl (JsError ''401 Unauthorized'')"
    by blast
  from c1 h2 c2 show ?thesis by (intro conjI)
qed

lemma stripDataUrl_wrap: "stripDataUrl (dataUrlPrefix @ payload) = payload"
  by (simp add: stripDataUrl_def replace_anchored_def dataUrlRx_def dataUrlPrefix_def)

lemma generateCoverImage_Inr:
  "generateCoverImage e p config = Inr url \<Longrightarrow>
   \<exists>response b bs. imageBackend e (generateRequest p config) = Inr response
     \<and> firstCandidateBlobs response = b # bs \<and> url = dataUrlPrefix @ data b"
  by (auto simp: generateCoverImage_def split: sum.splits option.splits dest: extractImage_Inr)

lemma refineCoverImage_Inr:
  "refineCoverImage e img i config = Inr url \<Longrightarrow>
   \<exists>response b bs. imageBackend e (refineRequest (stripDataUrl img) i config) = Inr response
     \<and> firstCandidateBlobs response = b # bs \<and> url = dataUrlPrefix @ data b"
  by (auto simp: refineCoverImage_def Let_def split: sum.splits option.splits
      dest: extractImage_Inr)

lemma refineCoverImage_of_data_url:
  "getAiClient e = Inr () \<Longrightarrow> selectKeyIfNeeded e config = None \<Longrightarrow>
   refineCoverImage e (dataUrlPrefix @ payload) i config
     = (case imageBackend e (refineRequest payload i config) of
          Inl err \<Rightarrow> Inl err
        | Inr response \<Rightarrow> extractImage ''No image data found in refinement response.'' response)"
  by (simp add: refineCoverImage_def stripDataUrl_wrap)

lemma refineRequest_parts:
  "map inlineData (req_parts (refineRequest payload i config))
     = [Some \<lparr>mimeType = ''image/png'', data = payload\<rparr>, None]"
  by (simp add: refineRequest_def)

text \<open>C10. A string returned by \<open>generateCoverImage\<close> or by \<open>refineCoverImage\<close> is the
  prefix \<open>data:image/png;base64,\<close> followed by the data of the first inline part of the first
  candidate of the response the backend gave to the request of that call, and the prefix
  stripping of \<open>refineCoverImage\<close> applied to it gives back exactly that data. Fed a string
  made of the prefix and a payload, \<open>refineCoverImage\<close> sends the backend a request whose
  inline part carries exactly the payload, and its result is what the backend's answer to
  that request yields.\<close>

theorem data_url_strip_recovers_payload:
  "(generateCoverImage e p config = Inr url \<longrightarrow>
      (\<exists>response b bs. imageBackend e (generateRequest p config) = Inr response
         \<and> firstCandidateBlobs response = b # bs
         \<and> url = ''data:image/png;base64,'' @ data b \<and> stripDataUrl url = data b))
   \<and> (refineCoverImage e img i config = Inr url \<longrightarrow>
      (\<exists>response b bs. imageBackend e (refineRequest (stripDataUrl img) i config) = Inr response
         \<and> firstCandidateBlobs response = b # bs
         \<and> url = ''data:image/png;base64,'' @ data b \<and> stripDataUrl url = data b))
   \<and> (getAiClient e = Inr () \<and> selectKeyIfNeeded e config = None \<longrightarrow>
        refineCoverImage e (''data:image/png;base64,'' @ payload) i config
          = (case imageBackend e (refineRequest payload i config) of
               Inl err \<Rightarrow> Inl err
             | Inr response \<Rightarrow>
                 extractImage ''No image data found in refinement response.'' response))
   \<and> map inlineData (req_parts (refineRequest payload i config))
       = [Some \<lparr>mimeType = ''image/png'', data = payload\<rparr>, None]"
proof (intro conjI impI)
  assume "generateCoverImage e p config = Inr url"
  then obtain response b bs where r: "imageBackend e (generateRequest p config) = Inr response"
    and b: "firstCandidateBlobs response = b # bs" and url: "url = dataUrlPrefix @ data b"
    using generateCoverImage_Inr by blast
  have strip: "stripDataUrl url = data b"
    unfolding url by (rule stripDataUrl_wrap)
  have url': "url = ''data:image/png;base64,'' @ data b"
    using url by (simp only: dataUrlPrefix_def)
  from r b url' strip
  show "\<exists>response b bs. imageBackend e (generateRequest p config) = Inr response
         \<and> firstCandidateBlobs response = b # bs
         \<and> url = ''data:image/png;base64,'' @ data b \<and> stripDataUrl url = data b"
    by (intro exI conjI)
next
  assume "refineCoverImage e img i config = Inr url"
  then obtain response b bs
    where r: "imageBackend e (refineRequest (stripDataUrl img) i config) = Inr response"
    and b: "firstCandidateBlobs response = b # bs" and url: "url = dataUrlPrefix @ data b"
    using refineCoverImage_Inr by blast
  have strip: "stripDataUrl url = data b"
    unfolding url by (rule stripDataUrl_wrap)
  have url': "url = ''data:image/png;base64,'' @ data b"
    using url by (simp only: dataUrlPrefix_def)
  from r b url' strip
  show "\<exists>response b bs.
          imageBackend e (refineRequest (stripDataUrl img) i config) = Inr response
         \<and> firstCandidateBlobs response = b # bs
         \<and> url = ''data:image/png;base64,'' @ data b \<and> stripDataUrl url = data b"
    by (intro exI conjI)
next
  assume "getAiClient e = Inr () \<and> selectKeyIfNeeded e config = None"
  then have k: "getAiClient e = Inr ()" and n: "selectKeyIfNeeded e config = None"
    by (rule conjunct1, rule conjunct2)
  from refineCoverImage_of_data_url [OF k n, of payload i]
  show "refineCoverImage e (''data:image/png;base64,'' @ payload) i config
          = (case imageBackend e (refineRequest payload i config) of
               Inl err \<Rightarrow> Inl err
             | Inr response \<Rightarrow>
                 extractImage ''No image data found in refinement response.'' response)"
    by (simp only: dataUrlPrefix_def)
next
  show "map inlineData (req_parts (refineRequest payload i config))
          = [Some \<lparr>mimeType = ''image/png'', data = payload\<rparr>, None]"
    by (rule refineRequest_parts)
qed

theorem data_url_strip_recovers_payload_witness:
  "(\<exists>response b bs.
       imageBackend workingEnv (generateRequest ''a glass cell'' exampleConfig) = Inr response
       \<and> firstCandidateBlobs response = b # bs
       \<and> ''data:image/png;base64,QUJD'' = ''data:image/png;base64,'' @ data b
       \<and> stripDataUrl ''data:image/png;base64,QUJD'' = data b)
   \<and> (\<exists>response b bs.
       imageBackend workingEnv
          (refineRequest (stripDataUrl ''data:image/png;base64,QUJD'') ''more blue'' exampleConfig)
         = Inr response
       \<and> firstCandidateBlobs response = b # bs
       \<and> ''data:image/png;base64,QUJD'' = ''data:image/png;base64,'' @ data b
       \<and> stripDataUrl ''data:image/png;base64,QUJD'' = data b)
   \<and> refineCoverImage workingEnv (''data:image/png;base64,'' @ ''QUJD'') ''more blue'' exampleConfig
       = (case imageBackend workingEnv (refineRequest ''QUJD'' ''more blue'' exampleConfig) of
            Inl err \<Rightarrow> Inl err
          | Inr response \<Rightarrow>
              extractImage ''No image data found in refinement response.'' response)"
proof -
  note t = data_url_strip_recovers_payload
             [of workingEnv "''a glass cell''" exampleConfig "''data:image/png;base64,QUJD''"
                 "''data:image/png;base64,QUJD''" "''more blue''" "''QUJD''"]
  have h1: "generateCoverImage workingEnv ''a glass cell'' exampleConfig
              = Inr ''data:image/png;base64,QUJD''"
    by (simp add: example_defs service_defs)
  have h2: "refineCoverImage workingEnv ''data:image/png;base64,QUJD'' ''more blue'' exampleConfig
              = Inr ''data:image/png;base64,QUJD''"
    by (simp add: example_defs service_defs Let_def)
  have h3: "getAiClient workingEnv = Inr () \<and> selectKeyIfNeeded workingEnv exampleConfig = None"
    by (simp add: example_defs getAiClient_def selectKeyIfNeeded_def)
  note c1 = t [THEN conjunct1, THEN mp, OF h1]
  note c2 = t [THEN conjunct2, THEN conjunct1, THEN mp, OF h2]
  note c3 = t [THEN conjunct2, THEN conjunct2, THEN conjunct1, THEN mp, OF h3]
  from c1 c2 c3 show ?thesis by (intro conjI)
qed

subsection \<open>DOI normalisation\<close>

lemma starts_with_iff: "starts_with p s \<longleftrightarrow> (\<exists>r. s = p @ r)"
proof
  assume "starts_with p s"
  then have "take (length p) s = p"
    by (simp add: starts_with_def)
  then have "s = p @ drop (length p) s"
    using append_take_drop_id [of "length p" s] by simp
  then show "\<exists>r. s = p @ r" ..
next
  assume "\<exists>r. s = p @ r"
  then show "starts_with p s"
    by (auto simp: starts_with_def)
qed

lemma rx_match_Lit: "r \<in> set (rx_match (Lit p) s) \<longleftrightarrow> s = p @ r"
proof
  assume "r \<in> set (rx_match (Lit p) s)"
  then have t: "take (length p) s = p" and d: "r = drop (length p) s"
    by (simp_all split: if_splits)
  from t d show "s = p @ r"
    using append_take_drop_id [of "length p" s] by simp
next
  assume "s = p @ r"
  then show "r \<in> set (rx_match (Lit p) s)"
    by simp
qed

lemma rx_match_lang: "r \<in> set (rx_match rx s) \<longleftrightarrow> (\<exists>p \<in> lang rx. s = p @ r)"
proof (induction rx arbitrary: s r)
  case (Lit p)
  show ?case using rx_match_Lit by simp
next
  case (Opt rx)
  then show ?case by auto
next
  case (Seq r1 r2)
  have "r \<in> set (rx_match (Seq r1 r2) s)
          \<longleftrightarrow> (\<exists>m. m \<in> set (rx_match r1 s) \<and> r \<in> set (rx_match r2 m))"
    by auto
  also have "\<dots> \<longleftrightarrow> (\<exists>m. (\<exists>p \<in> lang r1. s = p @ m) \<and> (\<exists>q \<in> lang r2. m = q @ r))"
    by (simp only: Seq.IH)
  also have "\<dots> \<longleftrightarrow> (\<exists>p \<in> lang r1. \<exists>q \<in> lang r2. s = (p @ q) @ r)"
    by auto
  also have "\<dots> \<longleftrightarrow> (\<exists>w \<in> lang (Seq r1 r2). s = w @ r)"
    by auto
  finally show ?case .
next
  case (Alt r1 r2)
  then show ?case by auto
qed

lemma lang_doiRx: "lang doiRx = set resolver_prefixes"
  unfolding doiRx_def resolver_prefixes_def by (simp add: insert_commute)

lemma cleanDoi_without_prefix:
  assumes "\<not> has_resolver_prefix X"
  shows "cleanDoi X = X"
proof -
  have "rx_match doiRx X = []"
  proof (cases "rx_match doiRx X")
    case Nil
    then show ?thesis .
  next
    case (Cons r rs)
    then have "r \<in> set (rx_match doiRx X)" by simp
    then obtain p where "p \<in> set resolver_prefixes" and "X = p @ r"
      using rx_match_lang lang_doiRx by auto
    then have "has_resolver_prefix X"
      unfolding has_resolver_prefix_def list_ex_iff starts_with_iff by blast
    with assms show ?thesis by simp
  qed
  then show ?thesis by (simp add: cleanDoi_def replace_anchored_def)
qed

lemma cleanDoi_https: "cleanDoi (''https://doi.org/'' @ X) = X"
  by (simp add: cleanDoi_def replace_anchored_def doiRx_def)

lemma cleanDoi_http_dx: "cleanDoi (''http://dx.doi.org/'' @ X) = X"
  by (simp add: cleanDoi_def replace_anchored_def doiRx_def)

text \<open>C7. For a DOI \<open>X\<close> that does not itself begin with a resolver prefix, the
  normalisation of \<open>fetchDoiMetadata\<close> maps \<open>https://doi.org/X\<close>, \<open>http://dx.doi.org/X\<close>
  and the bare \<open>X\<close> to exactly \<open>X\<close>.\<close>

theorem cleanDoi_strips_resolver:
  assumes "\<not> has_resolver_prefix X"
  shows "cleanDoi (''https://doi.org/'' @ X) = X
       \<and> cleanDoi (''http://dx.doi.org/'' @ X) = X
       \<and> cleanDoi X = X"
proof (intro conjI)
  show "cleanDoi (''https://doi.org/'' @ X) = X"
    by (rule cleanDoi_https)
  show "cleanDoi (''http://dx.doi.org/'' @ X) = X"
    by (rule cleanDoi_http_dx)
  from assms show "cleanDoi X = X"
    by (rule cleanDoi_without_prefix)
qed

theorem cleanDoi_strips_resolver_witness:
  "\<not> has_resolver_prefix ''10.1038/s41586-023-06000-z''
   \<and> cleanDoi (''https://doi.org/'' @ ''10.1038/s41586-023-06000-z'')
       = ''10.1038/s41586-023-06000-z''
   \<and> cleanDoi (''http://dx.doi.org/'' @ ''10.1038/s41586-023-06000-z'')
       = ''10.1038/s41586-023-06000-z''
   \<and> cleanDoi ''10.1038/s41586-023-06000-z'' = ''10.1038/s41586-023-06000-z''"
proof -
  have h: "\<not> has_resolver_prefix ''10.1038/s41586-023-06000-z''"
    by (simp add: has_resolver_prefix_def resolver_prefixes_def starts_with_def)
  from h cleanDoi_strips_resolver [OF h] show ?thesis by (rule conjI)
qed

subsection \<open>The cover editor\<close>

text \<open>C5. The metadata sync leaves every field whose incoming value is empty or absent as
  it was, sets \<open>journalName\<close> to the upper-cased incoming value and \<open>title\<close>, \<open>authors\<close> and
  \<open>doi\<close> to the incoming value when that is non-empty, and changes none of the other five
  fields.\<close>

theorem syncArticleData_merge:
  "m_journalName (syncArticleData (Some r) m)
     = (case journalName r of
          None \<Rightarrow> m_journalName m
        | Some j \<Rightarrow> if j = [] then m_journalName m else toUpperCase j)
   \<and> m_title (syncArticleData (Some r) m) = (if title r = [] then m_title m else title r)
   \<and> m_authors (syncArticleData (Some r) m)
     = (case authors r of None \<Rightarrow> m_authors m | Some a \<Rightarrow> if a = [] then m_authors m else a)
   \<and> m_doi (syncArticleData (Some r) m)
     = (case doi r of None \<Rightarrow> m_doi m | Some d \<Rightarrow> if d = [] then m_doi m else d)
   \<and> m_date (syncArticleData (Some r) m) = m_date m
   \<and> m_volumeInfo (syncArticleData (Some r) m) = m_volumeInfo m
   \<and> m_website (syncArticleData (Some r) m) = m_website m
   \<and> m_tag (syncArticleData (Some r) m) = m_tag m
   \<and> m_footer (syncArticleData (Some r) m) = m_footer m"
  by (cases "journalName r"; cases "authors r"; cases "doi r")
     (simp_all add: syncArticleData_def toUpperCase_def)

theorem syncArticleData_merge_witness:
  "m_journalName (syncArticleData (Some exampleArticle) initialMetadata) = ''NATURE''
   \<and> m_title (syncArticleData (Some exampleArticle) initialMetadata) = ''Slippery coatings''
   \<and> m_authors (syncArticleData (Some exampleArticle) initialMetadata) = m_authors initialMetadata
   \<and> m_doi (syncArticleData (Some exampleArticle) initialMetadata) = m_doi initialMetadata
   \<and> m_date (syncArticleData (Some exampleArticle) initialMetadata) = m_date initialMetadata"
proof -
  have r: "journalName exampleArticle = Some ''Nature''" "title exampleArticle = ''Slippery coatings''"
    "authors exampleArticle = None" "doi exampleArticle = Some []"
    by (simp_all add: exampleArticle_def)
  have u: "toUpperCase ''Nature'' = ''NATURE''"
    by (simp add: toUpperCase_def upper_char_def)
  from syncArticleData_merge [of exampleArticle initialMetadata] show ?thesis
    by (simp add: r u)
qed

lemma responsiveIndex_clamp: "responsiveIndex s b f = clamp (b + offset_of (fontOffsets s) f) 0 14"
  by (simp add: responsiveIndex_def clamp_def FONT_SIZES_def Let_def)

lemma clamp_range: "lo \<le> hi \<Longrightarrow> lo \<le> clamp v lo hi \<and> clamp v lo hi \<le> hi"
  by (simp add: clamp_def)

lemma getResponsiveSize_clamp:
  "getResponsiveSize s b (Some f)
     = Some (FONT_SIZES ! nat (clamp (b + offset_of (fontOffsets s) f) 0 14))"
proof -
  have "0 \<le> clamp (b + offset_of (fontOffsets s) f) 0 14
        \<and> clamp (b + offset_of (fontOffsets s) f) 0 14 \<le> 14"
    by (rule clamp_range) simp
  then show ?thesis
    by (simp add: getResponsiveSize_def responsiveIndex_clamp font_at_def FONT_SIZES_def)
qed

lemma offset_of_other:
  "activeField s \<noteq> Some f \<Longrightarrow>
   offset_of (fontOffsets (handleFontSizeChange delta s)) f = offset_of (fontOffsets s) f"
  by (cases "activeField s") (auto simp: handleFontSizeChange_def offset_of_def)

lemma metadata_handleFontSizeChange: "metadata (handleFontSizeChange delta s) = metadata s"
  by (cases "activeField s") (simp_all add: handleFontSizeChange_def)

lemma baseIndexOf_handleFontSizeChange:
  "baseIndexOf (handleFontSizeChange delta s) f = baseIndexOf s f"
  unfolding baseIndexOf_def metadata_handleFontSizeChange by (rule refl)

lemma offset_of_stored: "fontOffsets s f = Some off \<Longrightarrow> offset_of (fontOffsets s) f = off"
  by (simp add: offset_of_def)

lemma offset_of_unset: "fontOffsets s f = None \<Longrightarrow> offset_of (fontOffsets s) f = 0"
  by (simp add: offset_of_def)

lemma fontOffsets_other:
  "activeField s \<noteq> Some f \<Longrightarrow> fontOffsets (handleFontSizeChange delta s) f = fontOffsets s f"
  by (cases "activeField s") (auto simp: handleFontSizeChange_def)

lemma fontOffsets_active:
  "activeField s = Some f \<Longrightarrow>
   fontOffsets (handleFontSizeChange delta s) f = Some (offset_of (fontOffsets s) f + delta)"
  by (simp add: handleFontSizeChange_def)

text \<open>C6. For every base index \<open>b\<close> and every field: with the offset \<open>o\<close> stored for the
  field the effective index is \<open>clamp(b + o, 0, 14)\<close>, with none stored it is
  \<open>clamp(b, 0, 14)\<close>, and the size class is the entry of \<open>FONT_SIZES\<close> at that index. A
  change by \<open>delta\<close> stores \<open>o + delta\<close> for the active field, and for any other field it
  changes neither the stored offset, nor the base index, nor the effective index, nor the
  size class.\<close>

theorem font_index_clamped_and_independent:
  "(fontOffsets s f = Some off \<longrightarrow>
      responsiveIndex s b f = clamp (b + off) 0 14
    \<and> getResponsiveSize s b (Some f) = Some (FONT_SIZES ! nat (clamp (b + off) 0 14)))
   \<and> (fontOffsets s f = None \<longrightarrow>
      responsiveIndex s b f = clamp b 0 14
    \<and> getResponsiveSize s b (Some f) = Some (FONT_SIZES ! nat (clamp b 0 14)))
   \<and> (activeField s = Some f \<and> fontOffsets s f = Some off \<longrightarrow>
      fontOffsets (handleFontSizeChange delta s) f = Some (off + delta)
    \<and> responsiveIndex (handleFontSizeChange delta s) b f = clamp (b + (off + delta)) 0 14)
   \<and> (activeField s \<noteq> Some f \<longrightarrow>
      fontOffsets (handleFontSizeChange delta s) f = fontOffsets s f
    \<and> baseIndexOf (handleFontSizeChange delta s) f = baseIndexOf s f
    \<and> responsiveIndex (handleFontSizeChange delta s) b f = responsiveIndex s b f
    \<and> getResponsiveSize (handleFontSizeChange delta s) b (Some f)
        = getResponsiveSize s b (Some f))"
proof (intro conjI impI)
  assume st: "fontOffsets s f = Some off"
  show "responsiveIndex s b f = clamp (b + off) 0 14"
    by (simp add: responsiveIndex_clamp offset_of_stored [OF st])
  show "getResponsiveSize s b (Some f) = Some (FONT_SIZES ! nat (clamp (b + off) 0 14))"
    by (simp add: getResponsiveSize_clamp offset_of_stored [OF st])
next
  assume un: "fontOffsets s f = None"
  show "responsiveIndex s b f = clamp b 0 14"
    by (simp add: responsiveIndex_clamp offset_of_unset [OF un])
  show "getResponsiveSize s b (Some f) = Some (FONT_SIZES ! nat (clamp b 0 14))"
    by (simp add: getResponsiveSize_clamp offset_of_unset [OF un])
next
  assume "activeField s = Some f \<and> fontOffsets s f = Some off"
  then have act: "activeField s = Some f" and st: "fontOffsets s f = Some off"
    by (rule conjunct1, rule conjunct2)
  show stored: "fontOffsets (handleFontSizeChange delta s) f = Some (off + delta)"
    by (simp add: fontOffsets_active [OF act] offset_of_stored [OF st])
  show "responsiveIndex (handleFontSizeChange delta s) b f = clamp (b + (off + delta)) 0 14"
    by (simp add: responsiveIndex_clamp offset_of_stored [OF stored])
next
  assume other: "activeField s \<noteq> Some f"
  show "fontOffsets (handleFontSizeChange delta s) f = fontOffsets s f"
    using other by (rule fontOffsets_other)
  show "baseIndexOf (handleFontSizeChange delta s) f = baseIndexOf s f"
    by (rule baseIndexOf_handleFontSizeChange)
  show "responsiveIndex (handleFontSizeChange delta s) b f = responsiveIndex s b f"
    by (simp add: responsiveIndex_clamp offset_of_other [OF other])
  show "getResponsiveSize (handleFontSizeChange delta s) b (Some f)
          = getResponsiveSize s b (Some f)"
    by (simp add: getResponsiveSize_clamp offset_of_other [OF other])
qed

theorem font_index_clamped_and_independent_witness:
  "responsiveIndex enlargedTitle 6 F_title = 9
   \<and> getResponsiveSize enlargedTitle 6 (Some F_title) = Some ''text-4xl md:text-5xl''
   \<and> responsiveIndex enlargedTitle 13 F_title = 14
   \<and> responsiveIndex enlargedTitle 2 F_authors = 2
   \<and> fontOffsets (handleFontSizeChange 1 enlargedTitle) F_title = Some 4
   \<and> responsiveIndex (handleFontSizeChange 1 enlargedTitle) 6 F_title = 10
   \<and> fontOffsets (handleFontSizeChange 1 enlargedTitle) F_authors = None
   \<and> responsiveIndex (handleFontSizeChange 1 enlargedTitle) 2 F_authors = 2"
proof -
  have st: "fontOffsets enlargedTitle F_title = Some 3"
    by (simp add: enlargedTitle_def)
  have un: "fontOffsets enlargedTitle F_authors = None"
    by (simp add: enlargedTitle_def)
  have act: "activeField enlargedTitle = Some F_title \<and> fontOffsets enlargedTitle F_title = Some 3"
    by (simp add: enlargedTitle_def)
  have other: "activeField enlargedTitle \<noteq> Some F_authors"
    by (simp add: enlargedTitle_def)
  note t6 = font_index_clamped_and_independent [of enlargedTitle F_title 3 6 1]
  note t13 = font_index_clamped_and_independent [of enlargedTitle F_title 3 13 1]
  note ta = font_index_clamped_and_independent [of enlargedTitle F_authors 0 2 1]
  note a = t6 [THEN conjunct1, THEN mp, OF st]
  note a13 = t13 [THEN conjunct1, THEN mp, OF st]
  note b = ta [THEN conjunct2, THEN conjunct1, THEN mp, OF un]
  note c = t6 [THEN conjunct2, THEN conjunct2, THEN conjunct1, THEN mp, OF act]
  note d = ta [THEN conjunct2, THEN conjunct2, THEN conjunct2, THEN mp, OF other]
  have c1: "responsiveIndex enlargedTitle 6 F_title = 9"
    using a by (simp add: clamp_def)
  have c2: "getResponsiveSize enlargedTitle 6 (Some F_title) = Some ''text-4xl md:text-5xl''"
    using a by (simp add: clamp_def FONT_SIZES_def)
  have c3: "responsiveIndex enlargedTitle 13 F_title = 14"
    using a13 by (simp add: clamp_def)
  have c4: "responsiveIndex enlargedTitle 2 F_authors = 2"
    using b by (simp add: clamp_def)
  have c5: "fontOffsets (handleFontSizeChange 1 enlargedTitle) F_title = Some 4"
    using c by simp
  have c6: "responsiveIndex (handleFontSizeChange 1 enlargedTitle) 6 F_title = 10"
    using c by (simp add: clamp_def)
  have c7: "fontOffsets (handleFontSizeChange 1 enlargedTitle) F_authors = None"
    using d un by simp
  have c8: "responsiveIndex (handleFontSizeChange 1 enlargedTitle) 2 F_authors = 2"
    using d c4 by simp
  from c1 c2 c3 c4 c5 c6 c7 c8 show ?thesis by (intro conjI)
qed

text \<open>C8. When \<open>handleDownloadPdf\<close> is started on a mounted canvas or while no export is in
  flight, then afterwards, whether the capture succeeded or threw, the interaction mode is
  the one that was active before and the exporting flag is cleared.\<close>

theorem handleDownloadPdf_restores_mode:
  assumes "container \<noteq> None \<or> \<not> isExporting s"
  shows "mode (fst (handleDownloadPdf container capture s)) = mode s
       \<and> \<not> isExporting (fst (handleDownloadPdf container capture s))"
  using assms by (cases container) (simp_all add: handleDownloadPdf_def Let_def)

theorem handleDownloadPdf_restores_mode_witness:
  "mode (fst (handleDownloadPdf (Some \<lparr>rect_width = 1000, rect_height = 1000\<rparr>)
             (Some (JsError ''Tainted canvas'')) (setMode Layout initialDisplay))) = Layout
   \<and> \<not> isExporting (fst (handleDownloadPdf (Some \<lparr>rect_width = 1000, rect_height = 1000\<rparr>)
             (Some (JsError ''Tainted canvas'')) (setMode Layout initialDisplay)))"
proof -
  have h: "Some \<lparr>rect_width = 1000, rect_height = 1000\<rparr> \<noteq> None
           \<or> \<not> isExporting (setMode Layout initialDisplay)"
    by simp
  have m: "mode (setMode Layout initialDisplay) = Layout"
    by (simp add: setMode_def)
  from handleDownloadPdf_restores_mode [OF h, of "Some (JsError ''Tainted canvas'')"] m
  show ?thesis by simp
qed

lemma handleMouseMove_clamped:
  assumes "draggingKey s = Some key" and "dragStartRef s = Some start"
  shows "- 10 \<le> pos_x (layout (handleMouseMove e (Some r) s) key)
       \<and> pos_x (layout (handleMouseMove e (Some r) s) key) \<le> 100
       \<and> - 10 \<le> pos_y (layout (handleMouseMove e (Some r) s) key)
       \<and> pos_y (layout (handleMouseMove e (Some r) s) key) \<le> 100"
  using assms by (simp add: handleMouseMove_def Let_def)

text \<open>C4 does not hold of the code: \<open>handleWindowMouseMove\<close> computes the new position as
  \<open>handleMouseMove\<close> does, but without the clamp. Dragging the header 2000 pixels to the
  right of a canvas 1000 pixels wide puts it at \<open>x = 205\<close>.\<close>

theorem window_drag_leaves_range:
  "pos_x (layout (drag (setMode Layout initialDisplay) dragOutOfCanvas) Header) = 205
   \<and> \<not> pos_x (layout (drag (setMode Layout initialDisplay) dragOutOfCanvas) Header) \<le> 100"
  by (simp add: drag_def dragOutOfCanvas_def setMode_def initialDisplay_def initialLayout_def
        handleMouseDown_def handleWindowMouseMove_def handleMouseUp_def Let_def)

end
